theory Spec2Isabelle
  imports Main
begin

section \<open>Data model of permissionsService.js\<close>

text \<open>
  Modelled from the spec: the Sequelize models \<open>Project\<close>, \<open>Task\<close>, \<open>Note\<close> and
  \<open>Permission\<close> (required from \<open>../models\<close>) are not part of the sources at hand. A row
  of \<open>Project\<close>, \<open>Task\<close> or \<open>Note\<close> is restricted to the columns the service reads: the
  internal key \<open>id\<close> (here \<open>row_id\<close>), the external \<open>uid\<close>, the owner \<open>user_id\<close> and,
  for tasks and notes, the nullable \<open>project_id\<close> (\<open>None\<close> is SQL NULL; a project row
  carries \<open>None\<close> and the service never reads it there).
\<close>

record row =
  row_id :: nat
  uid :: string
  user_id :: nat
  project_id :: "nat option"

text \<open>A row of \<open>Permission\<close>; \<open>access_level\<close> is whatever string the table stores.\<close>

record permission =
  perm_user_id :: nat
  resource_type :: string
  resource_uid :: string
  access_level :: string

text \<open>
  The state the service reads: the four tables, in the order the database returns their
  rows, and the answer of \<open>isAdmin\<close> (\<open>rolesService\<close>, not part of the sources at hand,
  taken as a parameter).
\<close>

record store =
  Project :: "row list"
  Task :: "row list"
  Note :: "row list"
  Permission :: "permission list"
  isAdmin :: "nat \<Rightarrow> bool"

text \<open>\<open>const ACCESS = { NONE: 'none', RO: 'ro', RW: 'rw', ADMIN: 'admin' }\<close>\<close>

definition ACCESS_NONE :: string where "ACCESS_NONE = ''none''"
definition ACCESS_RO :: string where "ACCESS_RO = ''ro''"
definition ACCESS_RW :: string where "ACCESS_RW = ''rw''"
definition ACCESS_ADMIN :: string where "ACCESS_ADMIN = ''admin''"

text \<open>
  \<open>Model.findOne({ where })\<close> yields the first row that satisfies the condition, or null;
  \<open>Model.findAll({ where })\<close> yields every such row.
\<close>

abbreviation findOne :: "('a \<Rightarrow> bool) \<Rightarrow> 'a list \<Rightarrow> 'a option" where
  "findOne \<equiv> find"

abbreviation findAll :: "('a \<Rightarrow> bool) \<Rightarrow> 'a list \<Rightarrow> 'a list" where
  "findAll \<equiv> filter"

text \<open>
  \<open>Array.from(new Set(xs))\<close>: a JavaScript \<open>Set\<close> keeps insertion order, so every value
  stays at the place of its first occurrence.
\<close>

fun Set_from :: "'a list \<Rightarrow> 'a list \<Rightarrow> 'a list" where
  "Set_from acc [] = acc"
| "Set_from acc (x # xs) = Set_from (if x \<in> set acc then acc else acc @ [x]) xs"

section \<open>getSharedUidsForUser\<close>

definition getSharedUidsForUser :: "store \<Rightarrow> string \<Rightarrow> nat \<Rightarrow> string list" where
  "getSharedUidsForUser s resourceType userId =
     (let rows = findAll (\<lambda>r. perm_user_id r = userId \<and> resource_type r = resourceType)
                   (Permission s)
      in Set_from [] (map resource_uid rows))"

section \<open>getAccess\<close>

text \<open>
  Lines 85 to 95 of the source, the block every fall-through of \<open>getAccess\<close> ends in:
  the first permission row for the triple gives its \<open>access_level\<close> as stored, no row
  gives \<open>ACCESS.NONE\<close>.
\<close>

definition sharedAccess :: "store \<Rightarrow> nat \<Rightarrow> string \<Rightarrow> string \<Rightarrow> string" where
  "sharedAccess s userId resourceType resourceUid =
     (case findOne (\<lambda>r. perm_user_id r = userId \<and> resource_type r = resourceType
                         \<and> resource_uid r = resourceUid) (Permission s) of
        Some perm \<Rightarrow> access_level perm
      | None \<Rightarrow> ACCESS_NONE)"

text \<open>
  JavaScript truthiness of a nullable integer column, as in \<open>if (t.project_id)\<close>:
  null and 0 are falsy.
\<close>

fun truthy :: "nat option \<Rightarrow> bool" where
  "truthy None = False"
| "truthy (Some n) = (n \<noteq> 0)"

text \<open>
  \<open>getAccess\<close>. Each branch computes what it returns early (\<open>Some\<close>) or falls through
  (\<open>None\<close>) to the shared block. The only recursive call is the one of the task and note
  branches, on the parent project.
\<close>

function getAccess :: "store \<Rightarrow> nat \<Rightarrow> string \<Rightarrow> string \<Rightarrow> string" where
  "getAccess s userId resourceType resourceUid =
     (if isAdmin s userId then ACCESS_ADMIN
      else
        (case
           (if resourceType = ''project'' then
              (case findOne (\<lambda>p. uid p = resourceUid) (Project s) of
                 None \<Rightarrow> Some ACCESS_NONE
               | Some proj \<Rightarrow> if user_id proj = userId then Some ACCESS_RW else None)
            else if resourceType = ''task'' then
              (case findOne (\<lambda>t. uid t = resourceUid) (Task s) of
                 None \<Rightarrow> Some ACCESS_NONE
               | Some t \<Rightarrow>
                   if user_id t = userId then Some ACCESS_RW
                   else if truthy (project_id t) then
                     (case findOne (\<lambda>p. Some (row_id p) = project_id t) (Project s) of
                        None \<Rightarrow> None
                      | Some project \<Rightarrow>
                          (let projectAccess = getAccess s userId ''project'' (uid project)
                           in if projectAccess \<noteq> ACCESS_NONE then Some projectAccess
                              else None))
                   else None)
            else if resourceType = ''note'' then
              (case findOne (\<lambda>n. uid n = resourceUid) (Note s) of
                 None \<Rightarrow> Some ACCESS_NONE
               | Some n \<Rightarrow>
                   if user_id n = userId then Some ACCESS_RW
                   else if truthy (project_id n) then
                     (case findOne (\<lambda>p. Some (row_id p) = project_id n) (Project s) of
                        None \<Rightarrow> None
                      | Some project \<Rightarrow>
                          (let projectAccess = getAccess s userId ''project'' (uid project)
                           in if projectAccess \<noteq> ACCESS_NONE then Some projectAccess
                              else None))
                   else None)
            else None)
         of
           Some a \<Rightarrow> a
         | None \<Rightarrow> sharedAccess s userId resourceType resourceUid))"
  by pat_completeness auto
termination
  by (relation "measure (\<lambda>(s, userId, resourceType, resourceUid).
                   if resourceType = ''project'' then 0 else 1)") auto

declare getAccess.simps [simp del]

section \<open>ownershipOrPermissionWhere\<close>

text \<open>
  The where-clauses the service builds: \<open>{}\<close> (no restriction) or \<open>{ [Op.or]: conditions }\<close>,
  with the four conditions that occur: \<open>{ user_id: userId }\<close>, \<open>{ uid: { [Op.in]: xs } }\<close>,
  \<open>{ project_id: { [Op.in]: ids } }\<close> and \<open>{ uid: null }\<close>.
\<close>

datatype condition =
  User_id_eq nat
| Uid_in "string list"
| Project_id_in "nat list"
| Uid_null

datatype where_clause =
  No_restriction
| Op_or "condition list"

definition ownershipOrPermissionWhere :: "store \<Rightarrow> string \<Rightarrow> nat \<Rightarrow> where_clause" where
  "ownershipOrPermissionWhere s resourceType userId =
     (if isAdmin s userId then No_restriction
      else
        (let sharedUids = getSharedUidsForUser s resourceType userId in
         if resourceType = ''task'' \<or> resourceType = ''note'' then
           (let sharedProjectUids = getSharedUidsForUser s ''project'' userId;
                sharedProjectIds =
                  (if length sharedProjectUids > 0
                   then map row_id (findAll (\<lambda>p. uid p \<in> set sharedProjectUids) (Project s))
                   else []);
                conditions = [User_id_eq userId];
                conditions' =
                  (if length sharedUids > 0 then conditions @ [Uid_in sharedUids]
                   else conditions);
                conditions'' =
                  (if length sharedProjectIds > 0
                   then conditions' @ [Project_id_in sharedProjectIds]
                   else conditions')
            in Op_or conditions'')
         else
           Op_or [User_id_eq userId,
                  if length sharedUids \<noteq> 0 then Uid_in sharedUids else Uid_null]))"

text \<open>
  What a where-clause selects. The query is run by the database, outside the service:
  \<open>{}\<close> keeps every row, \<open>Op.or\<close> keeps a row that satisfies one of the conditions,
  \<open>IN\<close> is membership (never satisfied by a NULL column), and \<open>uid IS NULL\<close> holds of
  no row, since every row carries a uid.
\<close>

fun holds :: "condition \<Rightarrow> row \<Rightarrow> bool" where
  "holds (User_id_eq u) r = (user_id r = u)"
| "holds (Uid_in xs) r = (uid r \<in> set xs)"
| "holds (Project_id_in ids) r =
     (case project_id r of None \<Rightarrow> False | Some p \<Rightarrow> p \<in> set ids)"
| "holds Uid_null r = False"

fun matches :: "where_clause \<Rightarrow> row \<Rightarrow> bool" where
  "matches No_restriction r = True"
| "matches (Op_or conditions) r = list_ex (\<lambda>c. holds c r) conditions"

section \<open>Recursion depth of getAccess\<close>

text \<open>
  \<open>getAccess\<close> once more, with a budget of calls: \<open>getAccess_fuel k\<close> may nest \<open>k\<close>
  calls, the outermost included, and yields \<open>None\<close> when a call would exceed the budget.
  The branches are those of the source, with the fall-through to the shared block written
  out where it happens.
\<close>

fun getAccess_fuel :: "nat \<Rightarrow> store \<Rightarrow> nat \<Rightarrow> string \<Rightarrow> string \<Rightarrow> string option" where
  "getAccess_fuel 0 s userId resourceType resourceUid = None"
| "getAccess_fuel (Suc k) s userId resourceType resourceUid =
     (if isAdmin s userId then Some ACCESS_ADMIN
      else if resourceType = ''project'' then
        (case findOne (\<lambda>p. uid p = resourceUid) (Project s) of
           None \<Rightarrow> Some ACCESS_NONE
         | Some proj \<Rightarrow>
             if user_id proj = userId then Some ACCESS_RW
             else Some (sharedAccess s userId resourceType resourceUid))
      else if resourceType = ''task'' then
        (case findOne (\<lambda>t. uid t = resourceUid) (Task s) of
           None \<Rightarrow> Some ACCESS_NONE
         | Some t \<Rightarrow>
             if user_id t = userId then Some ACCESS_RW
             else if truthy (project_id t) then
               (case findOne (\<lambda>p. Some (row_id p) = project_id t) (Project s) of
                  None \<Rightarrow> Some (sharedAccess s userId resourceType resourceUid)
                | Some project \<Rightarrow>
                    (case getAccess_fuel k s userId ''project'' (uid project) of
                       None \<Rightarrow> None
                     | Some projectAccess \<Rightarrow>
                         if projectAccess \<noteq> ACCESS_NONE then Some projectAccess
                         else Some (sharedAccess s userId resourceType resourceUid)))
             else Some (sharedAccess s userId resourceType resourceUid))
      else if resourceType = ''note'' then
        (case findOne (\<lambda>n. uid n = resourceUid) (Note s) of
           None \<Rightarrow> Some ACCESS_NONE
         | Some n \<Rightarrow>
             if user_id n = userId then Some ACCESS_RW
             else if truthy (project_id n) then
               (case findOne (\<lambda>p. Some (row_id p) = project_id n) (Project s) of
                  None \<Rightarrow> Some (sharedAccess s userId resourceType resourceUid)
                | Some project \<Rightarrow>
                    (case getAccess_fuel k s userId ''project'' (uid project) of
                       None \<Rightarrow> None
                     | Some projectAccess \<Rightarrow>
                         if projectAccess \<noteq> ACCESS_NONE then Some projectAccess
                         else Some (sharedAccess s userId resourceType resourceUid)))
             else Some (sharedAccess s userId resourceType resourceUid))
      else Some (sharedAccess s userId resourceType resourceUid))"

section \<open>Auxiliary notions for the statements\<close>

text \<open>
  A task or note row \<open>r\<close> gains nothing from its parent project for user \<open>u\<close>: its
  \<open>project_id\<close> is falsy, or no project has that id, or \<open>getAccess\<close> on the parent
  project gives \<open>ACCESS.NONE\<close>. With this, the inheritance block of the task and note
  branches (lines 39 to 55 and 66 to 82) returns nothing.
\<close>

definition inheritsNothing :: "store \<Rightarrow> nat \<Rightarrow> row \<Rightarrow> bool" where
  "inheritsNothing s u r =
     (\<not> truthy (project_id r) \<or>
      (case findOne (\<lambda>p. Some (row_id p) = project_id r) (Project s) of
         None \<Rightarrow> True
       | Some project \<Rightarrow> getAccess s u ''project'' (uid project) = ACCESS_NONE))"

section \<open>Example stores\<close>

text \<open>
  The scenario of the specification: user 1 owns project \<open>p1\<close>; task \<open>t1\<close> and note \<open>n1\<close>
  belong to \<open>p1\<close> and are owned by user 2; user 3 holds a read-only grant on \<open>p1\<close>;
  user 4 has no relation to any of them; user 9 is an administrator.
\<close>

definition scenario :: store where
  "scenario =
     \<lparr> Project = [\<lparr> row_id = 1, uid = ''p1'', user_id = 1, project_id = None \<rparr>],
       Task = [\<lparr> row_id = 1, uid = ''t1'', user_id = 2, project_id = Some 1 \<rparr>],
       Note = [\<lparr> row_id = 1, uid = ''n1'', user_id = 2, project_id = Some 1 \<rparr>],
       Permission = [\<lparr> perm_user_id = 3, resource_type = ''project'', resource_uid = ''p1'',
                       access_level = ''ro'' \<rparr>],
       isAdmin = (\<lambda>u. u = 9) \<rparr>"

text \<open>
  A store with unusual grants: owners 1 and the administrator 9 hold resources; user 1
  also holds read-only grants on what it owns; user 4 holds grants whose stored level is
  \<open>admin\<close>, \<open>none\<close>, or a string that is no access level, and a grant on a resource
  of a type the service does not know; user 6 holds a grant on a project that no longer exists.
\<close>

definition grants :: store where
  "grants =
     \<lparr> Project = [\<lparr> row_id = 2, uid = ''p2'', user_id = 1, project_id = None \<rparr>,
                  \<lparr> row_id = 3, uid = ''p3'', user_id = 9, project_id = None \<rparr>],
       Task = [\<lparr> row_id = 2, uid = ''t2'', user_id = 1, project_id = None \<rparr>,
               \<lparr> row_id = 3, uid = ''t3'', user_id = 1, project_id = Some 2 \<rparr>],
       Note = [\<lparr> row_id = 2, uid = ''n2'', user_id = 1, project_id = Some 7 \<rparr>],
       Permission =
         [\<lparr> perm_user_id = 1, resource_type = ''project'', resource_uid = ''p2'',
             access_level = ''ro'' \<rparr>,
          \<lparr> perm_user_id = 1, resource_type = ''task'', resource_uid = ''t3'',
             access_level = ''ro'' \<rparr>,
          \<lparr> perm_user_id = 1, resource_type = ''note'', resource_uid = ''n2'',
             access_level = ''ro'' \<rparr>,
          \<lparr> perm_user_id = 4, resource_type = ''project'', resource_uid = ''p2'',
             access_level = ''admin'' \<rparr>,
          \<lparr> perm_user_id = 4, resource_type = ''task'', resource_uid = ''t2'',
             access_level = ''superuser'' \<rparr>,
          \<lparr> perm_user_id = 4, resource_type = ''note'', resource_uid = ''n2'',
             access_level = ''none'' \<rparr>,
          \<lparr> perm_user_id = 4, resource_type = ''area'', resource_uid = ''a1'',
             access_level = ''rw'' \<rparr>,
          \<lparr> perm_user_id = 6, resource_type = ''project'', resource_uid = ''gone'',
             access_level = ''rw'' \<rparr>,
          \<lparr> perm_user_id = 6, resource_type = ''task'', resource_uid = ''t2'',
             access_level = ''ro'' \<rparr>],
       isAdmin = (\<lambda>u. u = 9) \<rparr>"


section \<open>Facts about the queries\<close>

lemma find_distinct:
  "distinct (map f xs) \<Longrightarrow> x \<in> set xs \<Longrightarrow> find (\<lambda>y. f y = f x) xs = Some x"
  by (induction xs) (auto simp: image_iff)

lemma find_absent: "x \<notin> set (map f xs) \<Longrightarrow> find (\<lambda>y. f y = x) xs = None"
  by (auto simp add: find_None_iff)

lemma set_Set_from: "set (Set_from acc xs) = set acc \<union> set xs"
  by (induction xs arbitrary: acc) auto

lemma set_getSharedUidsForUser:
  "set (getSharedUidsForUser s t u) =
     resource_uid ` {g \<in> set (Permission s). perm_user_id g = u \<and> resource_type g = t}"
  by (simp add: getSharedUidsForUser_def set_Set_from)


lemma access_distinct:
  "ACCESS_RW \<noteq> ACCESS_NONE" "ACCESS_ADMIN \<noteq> ACCESS_NONE" "ACCESS_RO \<noteq> ACCESS_NONE"
  "ACCESS_ADMIN \<noteq> ACCESS_RW"
  by (simp_all add: ACCESS_NONE_def ACCESS_RW_def ACCESS_ADMIN_def ACCESS_RO_def)

section \<open>Admin bypass\<close>

text \<open>
  C3. For an administrator, \<open>getAccess\<close> returns \<open>ACCESS.ADMIN\<close> for every resource type
  and every uid, whether or not a resource with that uid exists, and
  \<open>ownershipOrPermissionWhere\<close> returns the empty where-clause, which restricts nothing
  and so matches every row.
\<close>

theorem admin_supremacy:
  assumes "isAdmin s u"
  shows "getAccess s u t x = ACCESS_ADMIN
       \<and> ownershipOrPermissionWhere s t u = No_restriction
       \<and> matches (ownershipOrPermissionWhere s t u) r"
  using assms by (simp add: getAccess.simps ownershipOrPermissionWhere_def)

theorem admin_supremacy_witness:
  "isAdmin scenario 9
   \<and> getAccess scenario 9 ''note'' ''does-not-exist'' = ACCESS_ADMIN
   \<and> ownershipOrPermissionWhere scenario ''note'' 9 = No_restriction
   \<and> matches (ownershipOrPermissionWhere scenario ''note'' 9)
         \<lparr> row_id = 1, uid = ''n1'', user_id = 2, project_id = Some 1 \<rparr>"
  using admin_supremacy [of scenario 9 "''note''" "''does-not-exist''"
          "\<lparr> row_id = 1, uid = ''n1'', user_id = 2, project_id = Some 1 \<rparr>"]
  by (simp add: scenario_def)

section \<open>Resources that do not exist\<close>

text \<open>
  C2, as the code has it. For a user who is no administrator: when the type is
  \<open>project\<close>, \<open>task\<close> or \<open>note\<close> and no row of that table has the uid, \<open>getAccess\<close>
  returns \<open>ACCESS.NONE\<close> at once (\<open>if (!proj) return ACCESS.NONE\<close>), whether or not a
  grant names the uid; for every other type it returns the result of the shared block,
  the level of the matching grant or \<open>ACCESS.NONE\<close>. The model has no error branch: the
  function is total and the source raises nowhere.
\<close>

theorem missing_resource_access:
  assumes "\<not> isAdmin s u"
  shows "(t = ''project'' \<and> x \<notin> set (map uid (Project s))
            \<longrightarrow> getAccess s u t x = ACCESS_NONE)
       \<and> (t = ''task'' \<and> x \<notin> set (map uid (Task s))
            \<longrightarrow> getAccess s u t x = ACCESS_NONE)
       \<and> (t = ''note'' \<and> x \<notin> set (map uid (Note s))
            \<longrightarrow> getAccess s u t x = ACCESS_NONE)
       \<and> (t \<noteq> ''project'' \<and> t \<noteq> ''task'' \<and> t \<noteq> ''note''
            \<longrightarrow> getAccess s u t x = sharedAccess s u t x)"
  using assms by (simp add: getAccess.simps find_absent)

theorem missing_resource_access_witness:
  "\<not> isAdmin grants 6
   \<and> ''gone'' \<notin> set (map uid (Project grants))
   \<and> getAccess grants 6 ''project'' ''gone'' = ACCESS_NONE
   \<and> ''gone'' \<notin> set (map uid (Task grants))
   \<and> getAccess grants 6 ''task'' ''gone'' = ACCESS_NONE
   \<and> ''gone'' \<notin> set (map uid (Note grants))
   \<and> getAccess grants 6 ''note'' ''gone'' = ACCESS_NONE
   \<and> getAccess grants 4 ''area'' ''a1'' = sharedAccess grants 4 ''area'' ''a1''
   \<and> sharedAccess grants 4 ''area'' ''a1'' = ACCESS_RW"
  using missing_resource_access [of grants 6 "''project''" "''gone''"]
        missing_resource_access [of grants 6 "''task''" "''gone''"]
        missing_resource_access [of grants 6 "''note''" "''gone''"]
        missing_resource_access [of grants 4 "''area''" "''a1''"]
  by (simp add: grants_def sharedAccess_def ACCESS_RW_def)

text \<open>
  The claim as the specification states it fails: user 6 holds a read-write grant on the
  project uid \<open>gone\<close>, no project has that uid, and \<open>getAccess\<close> returns \<open>ACCESS.NONE\<close>,
  not the level of the grant.
\<close>

theorem missing_project_grant_counterexample:
  "\<not> isAdmin grants 6
   \<and> findOne (\<lambda>p. uid p = ''gone'') (Project grants) = None
   \<and> sharedAccess grants 6 ''project'' ''gone'' = ACCESS_RW
   \<and> getAccess grants 6 ''project'' ''gone'' = ACCESS_NONE
   \<and> getAccess grants 6 ''project'' ''gone'' \<noteq> sharedAccess grants 6 ''project'' ''gone''"
  by (simp add: getAccess.simps grants_def sharedAccess_def ACCESS_RW_def ACCESS_NONE_def)

section \<open>Ownership\<close>

text \<open>
  C4, as the code has it. For a user who is no administrator and a project, task or note
  \<open>r\<close> of the store that the user owns (uids being unique within the table),
  \<open>getAccess\<close> returns \<open>ACCESS.RW\<close>. Nothing is assumed about the grants or about the
  parent project, so neither a lower grant on \<open>r\<close> nor the access to the parent changes
  the result.
\<close>

theorem owner_access:
  assumes "\<not> isAdmin s u" and "user_id r = u"
  shows "(r \<in> set (Project s) \<and> distinct (map uid (Project s))
            \<longrightarrow> getAccess s u ''project'' (uid r) = ACCESS_RW)
       \<and> (r \<in> set (Task s) \<and> distinct (map uid (Task s))
            \<longrightarrow> getAccess s u ''task'' (uid r) = ACCESS_RW)
       \<and> (r \<in> set (Note s) \<and> distinct (map uid (Note s))
            \<longrightarrow> getAccess s u ''note'' (uid r) = ACCESS_RW)"
  using assms by (simp add: getAccess.simps find_distinct)

theorem owner_access_witness:
  "\<not> isAdmin grants 1
   \<and> \<lparr> row_id = 2, uid = ''p2'', user_id = 1, project_id = None \<rparr> \<in> set (Project grants)
   \<and> distinct (map uid (Project grants))
   \<and> sharedAccess grants 1 ''project'' ''p2'' = ACCESS_RO
   \<and> getAccess grants 1 ''project'' ''p2'' = ACCESS_RW
   \<and> \<lparr> row_id = 1, uid = ''t1'', user_id = 2, project_id = Some 1 \<rparr> \<in> set (Task scenario)
   \<and> distinct (map uid (Task scenario))
   \<and> getAccess scenario 2 ''project'' ''p1'' = ACCESS_NONE
   \<and> getAccess scenario 2 ''task'' ''t1'' = ACCESS_RW
   \<and> \<lparr> row_id = 2, uid = ''n2'', user_id = 1, project_id = Some 7 \<rparr> \<in> set (Note grants)
   \<and> distinct (map uid (Note grants))
   \<and> sharedAccess grants 1 ''note'' ''n2'' = ACCESS_RO
   \<and> getAccess grants 1 ''note'' ''n2'' = ACCESS_RW"
  using owner_access [of grants 1 "\<lparr> row_id = 2, uid = ''p2'', user_id = 1, project_id = None \<rparr>"]
        owner_access [of scenario 2 "\<lparr> row_id = 1, uid = ''t1'', user_id = 2, project_id = Some 1 \<rparr>"]
        owner_access [of grants 1 "\<lparr> row_id = 2, uid = ''n2'', user_id = 1, project_id = Some 7 \<rparr>"]
  by (simp add: grants_def scenario_def sharedAccess_def ACCESS_RO_def ACCESS_NONE_def
        getAccess.simps [of _ _ "''project''"])

text \<open>
  The claim as the specification states it, for every user, fails for an administrator:
  user 9 owns project \<open>p3\<close> and \<open>getAccess\<close> returns \<open>ACCESS.ADMIN\<close>, the admin check
  coming first.
\<close>

theorem admin_owner_counterexample:
  "\<lparr> row_id = 3, uid = ''p3'', user_id = 9, project_id = None \<rparr> \<in> set (Project grants)
   \<and> distinct (map uid (Project grants))
   \<and> getAccess grants 9 ''project'' ''p3'' = ACCESS_ADMIN
   \<and> getAccess grants 9 ''project'' ''p3'' \<noteq> ACCESS_RW"
  by (simp add: getAccess.simps grants_def ACCESS_ADMIN_def ACCESS_RW_def)

section \<open>Inheritance from the parent project\<close>




section \<open>Unrecognized resource types\<close>

text \<open>
  C6, as the code has it. For a user who is no administrator and a resource type other
  than \<open>project\<close>, \<open>task\<close> and \<open>note\<close>, \<open>getAccess\<close> reads no resource table and
  returns exactly the lookup of the explicit grant: the \<open>access_level\<close> of the first
  permission row for the user, type and uid, and \<open>ACCESS.NONE\<close> when there is none.
\<close>

theorem unrecognized_type_access:
  assumes "\<not> isAdmin s u" and "t \<noteq> ''project''" and "t \<noteq> ''task''" and "t \<noteq> ''note''"
  shows "getAccess s u t x =
           (case findOne (\<lambda>g. perm_user_id g = u \<and> resource_type g = t \<and> resource_uid g = x)
                   (Permission s) of
              Some perm \<Rightarrow> access_level perm
            | None \<Rightarrow> ACCESS_NONE)"
  using assms by (simp add: getAccess.simps sharedAccess_def)

theorem unrecognized_type_access_witness:
  "\<not> isAdmin grants 4 \<and> ''area'' \<noteq> ''project'' \<and> ''area'' \<noteq> ''task'' \<and> ''area'' \<noteq> ''note''
   \<and> getAccess grants 4 ''area'' ''a1'' = ACCESS_RW
   \<and> getAccess grants 4 ''area'' ''a2'' = ACCESS_NONE"
  using unrecognized_type_access [of grants 4 "''area''" "''a1''"]
        unrecognized_type_access [of grants 4 "''area''" "''a2''"]
  by (simp add: grants_def ACCESS_RW_def)

text \<open>
  The claim as the specification states it, for every user, fails for an administrator:
  user 9 holds no grant on \<open>a1\<close> of the unknown type \<open>area\<close>, so the lookup of the
  explicit grant gives \<open>ACCESS.NONE\<close>, and \<open>getAccess\<close> returns \<open>ACCESS.ADMIN\<close>.
\<close>

theorem admin_unrecognized_type_counterexample:
  "isAdmin grants 9
   \<and> findOne (\<lambda>g. perm_user_id g = 9 \<and> resource_type g = ''area'' \<and> resource_uid g = ''a1'')
        (Permission grants) = None
   \<and> sharedAccess grants 9 ''area'' ''a1'' = ACCESS_NONE
   \<and> getAccess grants 9 ''area'' ''a1'' = ACCESS_ADMIN
   \<and> getAccess grants 9 ''area'' ''a1'' \<noteq> sharedAccess grants 9 ''area'' ''a1''"
  by (simp add: getAccess.simps grants_def sharedAccess_def ACCESS_ADMIN_def ACCESS_NONE_def)

section \<open>The explicit grant\<close>

text \<open>
  C9. When \<open>getAccess\<close> reaches the shared block (the user is no administrator; the
  resource, for the types \<open>project\<close>, \<open>task\<close> and \<open>note\<close>, exists and is not owned by
  the user; for a task or note, the parent project gives nothing) and a permission row
  matches, the result is the \<open>access_level\<close> that row stores, whatever string it is:
  nothing validates or clamps it.
\<close>

theorem shared_level_verbatim:
  assumes "\<not> isAdmin s u"
    and "findOne (\<lambda>g. perm_user_id g = u \<and> resource_type g = t \<and> resource_uid g = x)
           (Permission s) = Some perm"
    and "t = ''project'' \<longrightarrow>
           (\<exists>p. findOne (\<lambda>p. uid p = x) (Project s) = Some p \<and> user_id p \<noteq> u)"
    and "t = ''task'' \<longrightarrow>
           (\<exists>r. findOne (\<lambda>r. uid r = x) (Task s) = Some r \<and> user_id r \<noteq> u
                \<and> inheritsNothing s u r)"
    and "t = ''note'' \<longrightarrow>
           (\<exists>r. findOne (\<lambda>r. uid r = x) (Note s) = Some r \<and> user_id r \<noteq> u
                \<and> inheritsNothing s u r)"
  shows "getAccess s u t x = access_level perm"
proof -
  have shared: "sharedAccess s u t x = access_level perm"
    using assms(2) by (simp add: sharedAccess_def)
  consider (is_project) "t = ''project''" | (is_task) "t = ''task''" | (is_note) "t = ''note''"
    | (other) "t \<noteq> ''project'' \<and> t \<noteq> ''task'' \<and> t \<noteq> ''note''"
    by blast
  then show ?thesis
  proof cases
    case is_project
    with assms(3) obtain p where "findOne (\<lambda>p. uid p = x) (Project s) = Some p"
      and "user_id p \<noteq> u"
      by blast
    with assms(1) shared is_project show ?thesis
      by (simp add: getAccess.simps)
  next
    case is_task
    with assms(4) obtain r where r: "findOne (\<lambda>r. uid r = x) (Task s) = Some r"
      and "user_id r \<noteq> u" and "inheritsNothing s u r"
      by blast
    with assms(1) shared is_task show ?thesis
      by (auto simp add: getAccess.simps [of s u "''task''"] inheritsNothing_def Let_def
            split: option.splits)
  next
    case is_note
    with assms(5) obtain r where r: "findOne (\<lambda>r. uid r = x) (Note s) = Some r"
      and "user_id r \<noteq> u" and "inheritsNothing s u r"
      by blast
    with assms(1) shared is_note show ?thesis
      by (auto simp add: getAccess.simps [of s u "''note''"] inheritsNothing_def Let_def
            split: option.splits)
  next
    case other
    with assms(1) shared show ?thesis
      by (simp add: getAccess.simps)
  qed
qed

theorem shared_level_verbatim_witness:
  "\<not> isAdmin grants 4
   \<and> findOne (\<lambda>p. uid p = ''p2'') (Project grants)
       = Some \<lparr> row_id = 2, uid = ''p2'', user_id = 1, project_id = None \<rparr>
   \<and> getAccess grants 4 ''project'' ''p2'' = ''admin''
   \<and> findOne (\<lambda>r. uid r = ''t2'') (Task grants)
       = Some \<lparr> row_id = 2, uid = ''t2'', user_id = 1, project_id = None \<rparr>
   \<and> inheritsNothing grants 4 \<lparr> row_id = 2, uid = ''t2'', user_id = 1, project_id = None \<rparr>
   \<and> getAccess grants 4 ''task'' ''t2'' = ''superuser''
   \<and> findOne (\<lambda>r. uid r = ''n2'') (Note grants)
       = Some \<lparr> row_id = 2, uid = ''n2'', user_id = 1, project_id = Some 7 \<rparr>
   \<and> inheritsNothing grants 4 \<lparr> row_id = 2, uid = ''n2'', user_id = 1, project_id = Some 7 \<rparr>
   \<and> getAccess grants 4 ''note'' ''n2'' = ''none''
   \<and> getAccess grants 4 ''area'' ''a1'' = ''rw''"
  using shared_level_verbatim [of grants 4 "''project''" "''p2''"
          "\<lparr> perm_user_id = 4, resource_type = ''project'', resource_uid = ''p2'',
             access_level = ''admin'' \<rparr>"]
        shared_level_verbatim [of grants 4 "''task''" "''t2''"
          "\<lparr> perm_user_id = 4, resource_type = ''task'', resource_uid = ''t2'',
             access_level = ''superuser'' \<rparr>"]
        shared_level_verbatim [of grants 4 "''note''" "''n2''"
          "\<lparr> perm_user_id = 4, resource_type = ''note'', resource_uid = ''n2'',
             access_level = ''none'' \<rparr>"]
        shared_level_verbatim [of grants 4 "''area''" "''a1''"
          "\<lparr> perm_user_id = 4, resource_type = ''area'', resource_uid = ''a1'',
             access_level = ''rw'' \<rparr>"]
  by (simp add: grants_def inheritsNothing_def)

section \<open>Conditions of the where-clause\<close>

text \<open>
  C7, as the code has it. For a user who is no administrator: for the types \<open>task\<close> and
  \<open>note\<close>, the disjunction is the ownership condition, followed by the \<open>uid IN\<close>
  condition only when \<open>sharedUids\<close> is not empty, followed by the \<open>project_id IN\<close>
  condition only when \<open>sharedProjectIds\<close> is not empty; for every other type, \<open>project\<close>
  included, it is the ownership condition and a second condition, \<open>uid IN sharedUids\<close>
  when \<open>sharedUids\<close> is not empty and the substitute \<open>uid IS NULL\<close> when it is. No
  \<open>IN\<close> condition over an empty list occurs for any type.
\<close>

theorem where_conditions:
  assumes "\<not> isAdmin s u"
  shows "(t = ''task'' \<or> t = ''note'' \<longrightarrow>
           ownershipOrPermissionWhere s t u =
             Op_or ([User_id_eq u]
               @ (if getSharedUidsForUser s t u = [] then []
                  else [Uid_in (getSharedUidsForUser s t u)])
               @ (if map row_id (findAll (\<lambda>p. uid p \<in> set (getSharedUidsForUser s ''project'' u))
                                  (Project s)) = [] then []
                  else [Project_id_in
                          (map row_id (findAll (\<lambda>p. uid p \<in> set (getSharedUidsForUser s ''project'' u))
                                         (Project s)))])))
       \<and> (t \<noteq> ''task'' \<and> t \<noteq> ''note'' \<longrightarrow>
           ownershipOrPermissionWhere s t u =
             Op_or [User_id_eq u,
                    if getSharedUidsForUser s t u = [] then Uid_null
                    else Uid_in (getSharedUidsForUser s t u)])
       \<and> (\<exists>cs. ownershipOrPermissionWhere s t u = Op_or cs
                \<and> Uid_in [] \<notin> set cs \<and> Project_id_in [] \<notin> set cs)"
  using assms
  by (auto simp add: ownershipOrPermissionWhere_def Let_def)

theorem where_conditions_witness:
  "\<not> isAdmin scenario 3
   \<and> getSharedUidsForUser scenario ''task'' 3 = []
   \<and> ownershipOrPermissionWhere scenario ''task'' 3 = Op_or [User_id_eq 3, Project_id_in [1]]
   \<and> getSharedUidsForUser grants ''note'' 6 = []
   \<and> ownershipOrPermissionWhere grants ''note'' 6 = Op_or [User_id_eq 6]
   \<and> ownershipOrPermissionWhere grants ''project'' 6 = Op_or [User_id_eq 6, Uid_in [''gone'']]"
  using where_conditions [of scenario 3 "''task''"] where_conditions [of grants 6 "''note''"]
        where_conditions [of grants 6 "''project''"]
  by (simp add: scenario_def grants_def getSharedUidsForUser_def)

text \<open>
  The claim as the specification states it fails for the type \<open>project\<close>: user 1 holds no
  project grant, and the disjunction still has a second condition, \<open>uid IS NULL\<close>, in the
  place of the \<open>uid IN\<close> condition.
\<close>

theorem empty_shared_uids_counterexample:
  "\<not> isAdmin scenario 1
   \<and> getSharedUidsForUser scenario ''project'' 1 = []
   \<and> ownershipOrPermissionWhere scenario ''project'' 1 = Op_or [User_id_eq 1, Uid_null]
   \<and> ownershipOrPermissionWhere scenario ''project'' 1 \<noteq> Op_or [User_id_eq 1]"
  by (simp add: ownershipOrPermissionWhere_def scenario_def getSharedUidsForUser_def)

text \<open>
  C10. For a user who is no administrator and the types \<open>task\<close> and \<open>note\<close>: when the
  user holds a project grant and no project grant of the user names the uid of a project
  of the store, \<open>sharedProjectUids\<close> is not empty, \<open>sharedProjectIds\<close> is empty, and the
  where-clause has no \<open>project_id\<close> condition at all: it is the ownership condition,
  followed by the \<open>uid IN\<close> condition when \<open>sharedUids\<close> is not empty.
\<close>

theorem deleted_project_grant:
  assumes "\<not> isAdmin s u" and "t = ''task'' \<or> t = ''note''"
    and "g \<in> set (Permission s)" and "perm_user_id g = u" and "resource_type g = ''project''"
    and "\<forall>h \<in> set (Permission s). perm_user_id h = u \<and> resource_type h = ''project''
            \<longrightarrow> resource_uid h \<notin> set (map uid (Project s))"
  shows "getSharedUidsForUser s ''project'' u \<noteq> []
       \<and> map row_id (findAll (\<lambda>p. uid p \<in> set (getSharedUidsForUser s ''project'' u))
                       (Project s)) = []
       \<and> ownershipOrPermissionWhere s t u =
           Op_or ([User_id_eq u]
             @ (if getSharedUidsForUser s t u = [] then []
                else [Uid_in (getSharedUidsForUser s t u)]))"
proof -
  have "resource_uid g \<in> set (getSharedUidsForUser s ''project'' u)"
    using assms(3,4,5) by (auto simp add: set_getSharedUidsForUser)
  then have nonempty: "getSharedUidsForUser s ''project'' u \<noteq> []"
    by auto
  have "\<forall>p \<in> set (Project s). uid p \<notin> set (getSharedUidsForUser s ''project'' u)"
  proof (intro ballI notI)
    fix p
    assume p: "p \<in> set (Project s)"
      and "uid p \<in> set (getSharedUidsForUser s ''project'' u)"
    then obtain h where "h \<in> set (Permission s)" and "perm_user_id h = u"
      and "resource_type h = ''project''" and "resource_uid h = uid p"
      by (auto simp add: set_getSharedUidsForUser)
    with assms(6) have "uid p \<notin> set (map uid (Project s))"
      by metis
    with p show False
      by simp
  qed
  then have none:
    "findAll (\<lambda>p. uid p \<in> set (getSharedUidsForUser s ''project'' u)) (Project s) = []"
    by (simp add: filter_empty_conv)
  show ?thesis
    using assms(1,2) nonempty none
    by (auto simp add: ownershipOrPermissionWhere_def Let_def)
qed

theorem deleted_project_grant_witness:
  "\<not> isAdmin grants 6
   \<and> \<lparr> perm_user_id = 6, resource_type = ''project'', resource_uid = ''gone'',
        access_level = ''rw'' \<rparr> \<in> set (Permission grants)
   \<and> list_all (\<lambda>h. perm_user_id h = 6 \<and> resource_type h = ''project''
            \<longrightarrow> resource_uid h \<notin> set (map uid (Project grants))) (Permission grants)
   \<and> getSharedUidsForUser grants ''project'' 6 = [''gone'']
   \<and> ownershipOrPermissionWhere grants ''task'' 6 = Op_or [User_id_eq 6, Uid_in [''t2'']]
   \<and> ownershipOrPermissionWhere grants ''note'' 6 = Op_or [User_id_eq 6]"
proof -
  have h: "\<forall>h \<in> set (Permission grants). perm_user_id h = 6 \<and> resource_type h = ''project''
            \<longrightarrow> resource_uid h \<notin> set (map uid (Project grants))"
    by (simp add: grants_def)
  have m: "\<lparr> perm_user_id = 6, resource_type = ''project'', resource_uid = ''gone'',
        access_level = ''rw'' \<rparr> \<in> set (Permission grants)"
    by (simp add: grants_def)
  have a: "\<not> isAdmin grants 6"
    by (simp add: grants_def)
  have su: "getSharedUidsForUser grants ''task'' 6 = [''t2'']"
       "getSharedUidsForUser grants ''note'' 6 = []"
       "getSharedUidsForUser grants ''project'' 6 = [''gone'']"
    by (simp_all add: grants_def getSharedUidsForUser_def)
  from deleted_project_grant [OF a _ m _ _ h, of "''task''"]
       deleted_project_grant [OF a _ m _ _ h, of "''note''"]
  have "ownershipOrPermissionWhere grants ''task'' 6 = Op_or [User_id_eq 6, Uid_in [''t2'']]"
       "ownershipOrPermissionWhere grants ''note'' 6 = Op_or [User_id_eq 6]"
    by (simp_all add: su)
  with a m h su show ?thesis
    by (simp add: list_all_iff)
qed

section \<open>Termination and recursion depth\<close>

lemma project_fuel:
  "getAccess_fuel (Suc k) s u ''project'' x = Some (getAccess s u ''project'' x)"
  by (simp add: getAccess.simps split: option.splits)

lemma call_graph:
  "getAccess_rel (s', u', t', x') (s, u, t, x) \<Longrightarrow>
     (t = ''task'' \<or> t = ''note'') \<and> t' = ''project''"
  by (erule getAccess_rel.cases) (auto split: if_splits)

text \<open>
  C8. \<open>getAccess\<close> is a total function: its termination is proved with its definition.
  \<open>getAccess_rel\<close> is the call relation of that definition: \<open>getAccess_rel b a\<close> holds
  when \<open>getAccess\<close> at the arguments \<open>a\<close> calls itself at the arguments \<open>b\<close>. Every
  such call is made for the type \<open>task\<close> or \<open>note\<close>, its callee has the type \<open>project\<close>,
  and the callee calls nothing. Accordingly a budget of two nested calls, the outermost
  included, always suffices to compute the result, and a budget of one suffices for every
  type other than \<open>task\<close> and \<open>note\<close>: the recursion is never deeper than one call.
\<close>

theorem recursion_depth_bound:
  "getAccess_fuel (Suc (Suc k)) s u t x = Some (getAccess s u t x)
   \<and> (t \<noteq> ''task'' \<and> t \<noteq> ''note'' \<longrightarrow>
        getAccess_fuel (Suc k) s u t x = Some (getAccess s u t x))
   \<and> (getAccess_rel (s', u', t', x') (s, u, t, x) \<longrightarrow>
        (t = ''task'' \<or> t = ''note'') \<and> t' = ''project''
        \<and> (\<forall>c. \<not> getAccess_rel c (s', u', t', x')))"
proof -
  have inner: "\<And>y. getAccess_fuel (Suc k) s u ''project'' y = Some (getAccess s u ''project'' y)"
    by (rule project_fuel)
  have two: "getAccess_fuel (Suc (Suc k)) s u t x = Some (getAccess s u t x)"
    unfolding getAccess_fuel.simps(2) [of "Suc k"] getAccess.simps [of s u t x] inner
    by (simp add: Let_def split: option.splits)
  have one: "t \<noteq> ''task'' \<and> t \<noteq> ''note'' \<longrightarrow>
        getAccess_fuel (Suc k) s u t x = Some (getAccess s u t x)"
    unfolding getAccess_fuel.simps(2) [of k] getAccess.simps [of s u t x]
    by (simp split: option.splits)
  have calls: "getAccess_rel (s', u', t', x') (s, u, t, x) \<longrightarrow>
        (t = ''task'' \<or> t = ''note'') \<and> t' = ''project''
        \<and> (\<forall>c. \<not> getAccess_rel c (s', u', t', x'))"
  proof
    assume call: "getAccess_rel (s', u', t', x') (s, u, t, x)"
    then have here: "(t = ''task'' \<or> t = ''note'') \<and> t' = ''project''"
      by (rule call_graph)
    have "\<not> getAccess_rel c (s', u', t', x')" for c
    proof
      assume "getAccess_rel c (s', u', t', x')"
      then have "t' = ''task'' \<or> t' = ''note''"
        using call_graph [of "fst c" "fst (snd c)" "fst (snd (snd c))" "snd (snd (snd c))" s' u' t' x']
        by simp
      with here show False
        by simp
    qed
    with here show "(t = ''task'' \<or> t = ''note'') \<and> t' = ''project''
        \<and> (\<forall>c. \<not> getAccess_rel c (s', u', t', x'))"
      by simp
  qed
  from two one calls show ?thesis
    by simp
qed

theorem recursion_depth_bound_witness:
  "getAccess_fuel 2 scenario 3 ''task'' ''t1'' = Some (getAccess scenario 3 ''task'' ''t1'')
   \<and> getAccess scenario 3 ''task'' ''t1'' = ACCESS_RO
   \<and> getAccess_fuel 1 scenario 3 ''task'' ''t1'' = None
   \<and> ''project'' \<noteq> ''task'' \<and> ''project'' \<noteq> ''note''
   \<and> getAccess_fuel 1 scenario 3 ''project'' ''p1'' = Some (getAccess scenario 3 ''project'' ''p1'')
   \<and> getAccess scenario 3 ''project'' ''p1'' = ACCESS_RO
   \<and> getAccess_rel (scenario, 3, ''project'', ''p1'') (scenario, 3, ''task'', ''t1'')
   \<and> (\<forall>c. \<not> getAccess_rel c (scenario, 3, ''project'', ''p1''))"
proof -
  have a: "getAccess_fuel 2 scenario 3 ''task'' ''t1'' = Some (getAccess scenario 3 ''task'' ''t1'')"
    using recursion_depth_bound [of 0 scenario 3 "''task''" "''t1''"]
    by (simp add: numeral_2_eq_2)
  have b: "getAccess_fuel 1 scenario 3 ''project'' ''p1'' = Some (getAccess scenario 3 ''project'' ''p1'')"
    using recursion_depth_bound [of 0 scenario 3 "''project''" "''p1''"]
    by simp
  have c: "getAccess scenario 3 ''task'' ''t1'' = ACCESS_RO"
    by (simp add: getAccess.simps scenario_def sharedAccess_def ACCESS_RO_def ACCESS_NONE_def)
  have d: "getAccess scenario 3 ''project'' ''p1'' = ACCESS_RO"
    by (simp add: getAccess.simps scenario_def sharedAccess_def ACCESS_RO_def ACCESS_NONE_def)
  have e: "getAccess_fuel 1 scenario 3 ''task'' ''t1'' = None"
    by (simp add: scenario_def)
  have f: "getAccess_rel (scenario, 3, ''project'', ''p1'') (scenario, 3, ''task'', ''t1'')"
    using getAccess_rel.intros(1) [of scenario 3 "''task''" "''t1''"
            "\<lparr> row_id = 1, uid = ''t1'', user_id = 2, project_id = Some 1 \<rparr>"
            "\<lparr> row_id = 1, uid = ''p1'', user_id = 1, project_id = None \<rparr>"]
    by (simp add: scenario_def)
  have g: "\<forall>c. \<not> getAccess_rel c (scenario, 3, ''project'', ''p1'')"
    using f recursion_depth_bound [of 0 scenario 3 "''task''" "''t1''" scenario 3 "''project''" "''p1''"]
    by simp
  from a b c d e f g show ?thesis by simp
qed

section \<open>The where-clause against getAccess\<close>

text \<open>
  C1 at the scenario of the specification. User 1 owns project \<open>p1\<close> and is no
  administrator; task \<open>t1\<close> of \<open>p1\<close> is owned by user 2. The where-clause for user 1 and
  the type \<open>task\<close> is the ownership condition alone, which \<open>t1\<close> does not satisfy, and
  \<open>getAccess\<close> gives user 1 \<open>ACCESS.RW\<close> on \<open>t1\<close>, inherited from the project that
  user 1 owns: the where-clause looks at the projects shared with the user and not at the
  projects the user owns.
\<close>

theorem filter_misses_task_of_owned_project:
  "\<not> isAdmin scenario 1
   \<and> \<lparr> row_id = 1, uid = ''t1'', user_id = 2, project_id = Some 1 \<rparr> \<in> set (Task scenario)
   \<and> ownershipOrPermissionWhere scenario ''task'' 1 = Op_or [User_id_eq 1]
   \<and> \<not> matches (ownershipOrPermissionWhere scenario ''task'' 1)
          \<lparr> row_id = 1, uid = ''t1'', user_id = 2, project_id = Some 1 \<rparr>
   \<and> getAccess scenario 1 ''task'' ''t1'' = ACCESS_RW
   \<and> getAccess scenario 1 ''task'' ''t1'' \<noteq> ACCESS_NONE"
  by (simp add: getAccess.simps ownershipOrPermissionWhere_def getSharedUidsForUser_def
        scenario_def ACCESS_RW_def ACCESS_NONE_def)

text \<open>
  What the where-clause does guarantee: a row it rejects is not owned by the user, no
  grant of the user names its uid, and no grant of the user names its parent project.
\<close>

lemma shared_none:
  assumes "x \<notin> set (getSharedUidsForUser s t u)"
  shows "sharedAccess s u t x = ACCESS_NONE"
proof -
  have "findOne (\<lambda>g. perm_user_id g = u \<and> resource_type g = t \<and> resource_uid g = x)
          (Permission s) = None"
    using assms by (auto simp add: find_None_iff set_getSharedUidsForUser)
  then show ?thesis
    by (simp add: sharedAccess_def)
qed

lemma rejected_uid_not_shared:
  assumes "\<not> isAdmin s u" and "\<not> matches (ownershipOrPermissionWhere s t u) r"
  shows "user_id r \<noteq> u \<and> uid r \<notin> set (getSharedUidsForUser s t u)"
  using assms
  by (auto simp add: ownershipOrPermissionWhere_def Let_def split: if_splits)

lemma rejected_parent_not_shared:
  assumes "\<not> isAdmin s u" and "t = ''task'' \<or> t = ''note''"
    and "\<not> matches (ownershipOrPermissionWhere s t u) r"
    and "P \<in> set (Project s)" and "project_id r = Some (row_id P)"
  shows "uid P \<notin> set (getSharedUidsForUser s ''project'' u)"
proof
  assume shared: "uid P \<in> set (getSharedUidsForUser s ''project'' u)"
  then have "getSharedUidsForUser s ''project'' u \<noteq> []"
    by auto
  moreover have "row_id P \<in> set (map row_id
      (findAll (\<lambda>p. uid p \<in> set (getSharedUidsForUser s ''project'' u)) (Project s)))"
    using shared assms(4) by auto
  ultimately have "matches (ownershipOrPermissionWhere s t u) r"
    using assms(1,2,5)
    by (auto simp add: ownershipOrPermissionWhere_def Let_def simp del: set_map)
  with assms(3) show False
    by simp
qed

text \<open>
  Apart from that case the two functions agree. A project row that the where-clause
  rejects resolves to \<open>ACCESS.NONE\<close>; so does a task or note row that the where-clause
  rejects, provided the user owns no project with the row's \<open>project_id\<close>.
\<close>

lemma rejected_project_row:
  assumes "\<not> isAdmin s u" and "distinct (map uid (Project s))" and "r \<in> set (Project s)"
    and "\<not> matches (ownershipOrPermissionWhere s ''project'' u) r"
  shows "getAccess s u ''project'' (uid r) = ACCESS_NONE"
  using assms rejected_uid_not_shared [OF assms(1,4)]
  by (simp add: getAccess.simps find_distinct shared_none)

lemma unowned_unshared_project:
  assumes "\<not> isAdmin s u" and "distinct (map uid (Project s))" and "P \<in> set (Project s)"
    and "user_id P \<noteq> u" and "uid P \<notin> set (getSharedUidsForUser s ''project'' u)"
  shows "getAccess s u ''project'' (uid P) = ACCESS_NONE"
  using assms by (simp add: getAccess.simps find_distinct shared_none)

lemma rejected_child_row:
  assumes "\<not> isAdmin s u" and "distinct (map uid (Project s))"
    and "t = ''task'' \<and> r \<in> set (Task s) \<and> distinct (map uid (Task s))
         \<or> t = ''note'' \<and> r \<in> set (Note s) \<and> distinct (map uid (Note s))"
    and "\<not> matches (ownershipOrPermissionWhere s t u) r"
    and "\<forall>P \<in> set (Project s). project_id r = Some (row_id P) \<longrightarrow> user_id P \<noteq> u"
  shows "getAccess s u t (uid r) = ACCESS_NONE"
proof -
  have tn: "t = ''task'' \<or> t = ''note''"
    using assms(3) by blast
  have own: "user_id r \<noteq> u" and direct: "sharedAccess s u t (uid r) = ACCESS_NONE"
    using rejected_uid_not_shared [OF assms(1,4)] by (simp_all add: shared_none)
  have parent: "getAccess s u ''project'' (uid P) = ACCESS_NONE"
    if "findOne (\<lambda>p. Some (row_id p) = project_id r) (Project s) = Some P" for P
  proof -
    from that have P: "P \<in> set (Project s)" and id: "project_id r = Some (row_id P)"
      by (auto simp add: find_Some_iff in_set_conv_nth)
    from assms(5) P id have "user_id P \<noteq> u"
      by blast
    moreover have "uid P \<notin> set (getSharedUidsForUser s ''project'' u)"
      using rejected_parent_not_shared [OF assms(1) tn assms(4) P id] .
    ultimately show ?thesis
      using unowned_unshared_project [OF assms(1,2) P] by simp
  qed
  show ?thesis
    using assms(1,3) own direct parent
    by (auto simp add: getAccess.simps [of s u "''task''"] getAccess.simps [of s u "''note''"]
          find_distinct Let_def split: option.splits)
qed

end
